theory Spec2Isabelle
  imports Complex_Main
begin

section \<open>Data model\<close>

text \<open>
  Artifacts, links and gaps are Python dictionaries in the source. An artifact is
  modelled as a record of the keys the linking and analysis code reads. Artifact
  types stay strings, as in the source, because the tables of the analyzer are looked
  up with a default for unknown types. Python floats are modelled as reals and Python
  strings as 8-bit character lists.
\<close>

datatype py_error = KeyError | IndexError | RecursionError

record artifact =
  art_id :: string
  art_type :: string
  art_text :: "string option"
  art_name :: "string option"
  referenced_ids :: "string list"

text \<open>
  The trace graph of \<^verbatim>\<open>build_trace_graph\<close>: three dictionaries, kept as
  association lists in insertion order.
\<close>

record graph =
  nodes :: "(string \<times> artifact) list"
  edges_down :: "(string \<times> string list) list"
  edges_up :: "(string \<times> string list) list"

text \<open>\<^verbatim>\<open>d.get(k, default)\<close> on a dictionary.\<close>

definition dict_get :: "('k \<times> 'v) list \<Rightarrow> 'k \<Rightarrow> 'v \<Rightarrow> 'v" where
  "dict_get d k dflt = (case map_of d k of None \<Rightarrow> dflt | Some v \<Rightarrow> v)"

section \<open>Chain classification (analyzer.py)\<close>

definition EXPECTED_CHAIN_DEPTH :: "(string \<times> nat) list" where
  "EXPECTED_CHAIN_DEPTH =
     [(''SYSTEM_REQ'', 5), (''SYSTEM_REQ_DECOMPOSED'', 4), (''HLR'', 3), (''LLR'', 2),
      (''CODE_VAR'', 1)]"

definition EXPECTED_TERMINAL_TYPE :: "(string \<times> string) list" where
  "EXPECTED_TERMINAL_TYPE =
     [(''SYSTEM_REQ'', ''CODE_VAR''), (''SYSTEM_REQ_DECOMPOSED'', ''CODE_VAR''),
      (''HLR'', ''CODE_VAR''), (''LLR'', ''CODE_VAR'')]"

datatype classification = COMPLETE | PARTIAL | INCOMPLETE | BROKEN

text \<open>
  \<^verbatim>\<open>classify_chain(chain, graph)\<close>. The empty chain is answered before the graph is
  read; \<^verbatim>\<open>graph['nodes'][id]\<close> raises \<^verbatim>\<open>KeyError\<close> for an id that is not a node.
\<close>

definition classify_chain :: "string list \<Rightarrow> graph \<Rightarrow> py_error + classification" where
  "classify_chain chain g =
     (if chain = [] then Inr INCOMPLETE
      else case map_of (nodes g) (hd chain) of
        None \<Rightarrow> Inl KeyError
      | Some start \<Rightarrow>
         (case map_of (nodes g) (last chain) of
            None \<Rightarrow> Inl KeyError
          | Some terminal \<Rightarrow>
             (let start_type = art_type start;
                  terminal_type = art_type terminal;
                  expected_depth = dict_get EXPECTED_CHAIN_DEPTH start_type 1;
                  expected_terminal = dict_get EXPECTED_TERMINAL_TYPE start_type ''CODE_VAR'';
                  actual_depth = length chain
              in if terminal_type = expected_terminal \<and> actual_depth \<ge> expected_depth
                 then Inr COMPLETE
                 else if actual_depth > 1 \<and> actual_depth < expected_depth then Inr PARTIAL
                 else if actual_depth = 1 then Inr INCOMPLETE
                 else Inr BROKEN)))"

section \<open>Chain enumeration\<close>

text \<open>
  \<^verbatim>\<open>trace_chain_forward\<close> of analyzer.py: the nested \<^verbatim>\<open>dfs\<close> appends every
  root-to-leaf path to \<^verbatim>\<open>chains\<close> and follows \<^verbatim>\<open>edges_down\<close> with no record
  of the nodes already on the path. The first argument bounds the depth of nested calls,
  as the interpreter's recursion limit does: a call that needs more depth ends in
  \<^verbatim>\<open>RecursionError\<close>. A search that needs more depth than every bound never
  returns normally.
\<close>

fun dfs :: "nat \<Rightarrow> graph \<Rightarrow> string \<Rightarrow> string list \<Rightarrow> string list list
              \<Rightarrow> py_error + string list list"
  and dfs_children :: "nat \<Rightarrow> graph \<Rightarrow> string list \<Rightarrow> string list \<Rightarrow> string list list
              \<Rightarrow> py_error + string list list"
where
  "dfs 0 g node_id path found = Inl RecursionError"
| "dfs (Suc limit) g node_id path found =
     (let current_path = path @ [node_id];
          children = dict_get (edges_down g) node_id []
      in if children = [] then Inr (found @ [current_path])
         else dfs_children limit g children current_path found)"
| "dfs_children limit g [] current_path found = Inr found"
| "dfs_children limit g (child_id # rest) current_path found =
     (case dfs limit g child_id current_path found of
        Inl e \<Rightarrow> Inl e
      | Inr found' \<Rightarrow> dfs_children limit g rest current_path found')"

definition trace_chain_forward :: "nat \<Rightarrow> graph \<Rightarrow> string \<Rightarrow> py_error + string list list" where
  "trace_chain_forward limit g start_id = dfs limit g start_id [] []"

text \<open>
  \<^verbatim>\<open>_find_all_chains\<close> of hierarchical_analyzer.py: the same search with a visited
  set per branch. A node already on the current path is not entered again, so the
  recursion is well-founded: every call below a node with children has one more key of
  \<^verbatim>\<open>edges_down\<close> in its visited set.
\<close>

function dfs_visited :: "graph \<Rightarrow> string \<Rightarrow> string list \<Rightarrow> string set \<Rightarrow> string list list
              \<Rightarrow> string list list"
  and dfs_visited_children :: "graph \<Rightarrow> string list \<Rightarrow> string list \<Rightarrow> string set
              \<Rightarrow> string list list \<Rightarrow> string list list"
where
  "dfs_visited g node_id path visited found =
     (if node_id \<in> visited then found
      else if dict_get (edges_down g) node_id [] = [] then found @ [path @ [node_id]]
      else dfs_visited_children g (dict_get (edges_down g) node_id []) (path @ [node_id])
             (visited \<union> {node_id}) found)"
| "dfs_visited_children g [] current_path visited found = found"
| "dfs_visited_children g (child_id # rest) current_path visited found =
     dfs_visited_children g rest current_path visited
       (dfs_visited g child_id current_path visited found)"
  by pat_completeness auto
termination
proof (relation "measures
    [\<lambda>x. case x of
        Inl (g, n, p, v, c) \<Rightarrow> card (fst ` set (edges_down g) - v)
      | Inr (g, cs, p, v, c) \<Rightarrow> card (fst ` set (edges_down g) - v),
     \<lambda>x. case x of
        Inl (g, n, p, v, c) \<Rightarrow> 0
      | Inr (g, cs, p, v, c) \<Rightarrow> Suc (length cs)]", goal_cases)
  case 1
  show ?case by simp
next
  case (2 g node_id path visited found)
  from 2(2) have "map_of (edges_down g) node_id \<noteq> None"
    by (cases "map_of (edges_down g) node_id") (simp_all add: dict_get_def)
  then have "node_id \<in> fst ` set (edges_down g)"
    by (simp add: map_of_eq_None_iff)
  with 2(1) have "card (fst ` set (edges_down g) - (visited \<union> {node_id}))
      < card (fst ` set (edges_down g) - visited)"
    by (intro psubset_card_mono) auto
  then show ?case by simp
next
  case 3
  show ?case by simp
next
  case 4
  show ?case by simp
qed

definition find_all_chains :: "string \<Rightarrow> graph \<Rightarrow> string list list" where
  "find_all_chains start_id g = dfs_visited g start_id [] {} []"

section \<open>Gap detection (analyzer.py)\<close>




datatype severity_level = critical | high | medium | low


text \<open>Decimal digits of a natural number, and the format \<^verbatim>\<open>GAP-{n:03d}\<close>.\<close>

fun str_nat :: "nat \<Rightarrow> string" where
  "str_nat n =
     (if n < 10 then [''0123456789'' ! n]
      else str_nat (n div 10) @ [''0123456789'' ! (n mod 10)])"

declare str_nat.simps [simp del]











section \<open>Identifier hierarchy (linker.py)\<close>

definition is_upper :: "char \<Rightarrow> bool" where
  "is_upper c = (c \<in> set ''ABCDEFGHIJKLMNOPQRSTUVWXYZ'')"

definition is_digit :: "char \<Rightarrow> bool" where
  "is_digit c = (c \<in> set ''0123456789'')"

text \<open>
  \<^verbatim>\<open>re.match\<close> of the pattern
  \<^verbatim>\<open>^([A-Z]+)-(\d+)(?:-([A-Z]+))?(?:-(\d+))?$\<close>, giving the four groups. The
  character classes are disjoint from the separator, so the match is found without
  backtracking. \<^verbatim>\<open>$\<close> also matches before a newline that ends the string.
\<close>

definition match_digits_end :: "string \<Rightarrow> bool" where
  "match_digits_end s = (s \<noteq> [] \<and> list_all is_digit s)"

definition match_suffixes :: "string \<Rightarrow> (string option \<times> string option) option" where
  "match_suffixes r =
     (case r of
        [] \<Rightarrow> Some (None, None)
      | c # r4 \<Rightarrow>
          if c \<noteq> CHR ''-'' then None
          else let letter = takeWhile is_upper r4; r5 = dropWhile is_upper r4 in
            if letter \<noteq> [] then
              (case r5 of
                 [] \<Rightarrow> Some (Some letter, None)
               | c' # r6 \<Rightarrow>
                   if c' = CHR ''-'' \<and> match_digits_end r6 then Some (Some letter, Some r6)
                   else None)
            else if match_digits_end r4 then Some (None, Some r4)
            else None)"

definition match_id :: "string \<Rightarrow> (string \<times> string \<times> string option \<times> string option) option" where
  "match_id artifact_id =
     (let s = (if artifact_id \<noteq> [] \<and> last artifact_id = CHR 0x0A then butlast artifact_id
               else artifact_id);
          pref = takeWhile is_upper s;
          r1 = dropWhile is_upper s
      in if pref = [] then None
         else case r1 of
           [] \<Rightarrow> None
         | c # r2 \<Rightarrow>
             if c \<noteq> CHR ''-'' then None
             else let num = takeWhile is_digit r2; r3 = dropWhile is_digit r2 in
               if num = [] then None
               else (case match_suffixes r3 of
                       None \<Rightarrow> None
                     | Some (letter, subnum) \<Rightarrow> Some (pref, num, letter, subnum)))"

record id_info =
  id_base :: string
  id_suffix :: "string option"
  id_parent_ref :: "string option"
  id_prefix :: "string option"

definition extract_id_hierarchy :: "string \<Rightarrow> id_info" where
  "extract_id_hierarchy artifact_id =
     (case match_id artifact_id of
        None \<Rightarrow>
          \<lparr>id_base = artifact_id, id_suffix = None, id_parent_ref = None, id_prefix = None\<rparr>
      | Some (pref, num, letter, subnum) \<Rightarrow>
          \<lparr>id_base = pref @ ''-'' @ num,
           id_suffix = (case letter of Some l \<Rightarrow> Some l | None \<Rightarrow> subnum),
           id_parent_ref =
             (case letter of
                None \<Rightarrow> None
              | Some l \<Rightarrow>
                  if pref = ''HLR'' then Some (''SYS-'' @ num)
                  else if pref = ''LLR'' then
                    (if subnum \<noteq> None then Some (''HLR-'' @ num @ ''-'' @ l)
                     else Some (''HLR-'' @ num @ ''-'' @ l))
                  else None),
           id_prefix = Some pref\<rparr>)"

text \<open>\<^verbatim>\<open>s.split(sep)\<close> for a one-character separator: never the empty list.\<close>

fun py_split :: "char \<Rightarrow> string \<Rightarrow> string list" where
  "py_split sep [] = [[]]"
| "py_split sep (c # cs) =
     (if c = sep then [] # py_split sep cs
      else case py_split sep cs of
             [] \<Rightarrow> [[c]]
           | w # ws \<Rightarrow> (c # w) # ws)"

definition compute_id_relationship_boost :: "string \<Rightarrow> string \<Rightarrow> real" where
  "compute_id_relationship_boost source_id target_id =
     (let source_info = extract_id_hierarchy source_id;
          target_info = extract_id_hierarchy target_id
      in if id_parent_ref source_info = Some target_id \<or> id_parent_ref target_info = Some source_id
         then 0.3
         else if last (py_split (CHR ''-'') (id_base source_info))
                   = last (py_split (CHR ''-'') (id_base target_info))
         then 0.2
         else 0.0)"

section \<open>Match signals (linker.py)\<close>

text \<open>Python's \<^verbatim>\<open>a in b\<close> on strings and \<^verbatim>\<open>s.lower()\<close> on ASCII letters.\<close>

fun py_in :: "string \<Rightarrow> string \<Rightarrow> bool" where
  "py_in xs [] = (xs = [])"
| "py_in xs (y # ys) = (take (length xs) (y # ys) = xs \<or> py_in xs ys)"

definition lower_char :: "char \<Rightarrow> char" where
  "lower_char c =
     (case map_of (zip ''ABCDEFGHIJKLMNOPQRSTUVWXYZ'' ''abcdefghijklmnopqrstuvwxyz'') c of
        None \<Rightarrow> c
      | Some l \<Rightarrow> l)"

definition lower :: "string \<Rightarrow> string" where
  "lower s = map lower_char s"

definition quoted :: "string \<Rightarrow> string" where
  "quoted s = [CHR 0x27] @ s @ [CHR 0x27]"

definition compute_variable_name_match :: "artifact \<Rightarrow> artifact \<Rightarrow> real \<times> string list" where
  "compute_variable_name_match llr variable =
     (let var_name = (case art_name variable of None \<Rightarrow> [] | Some n \<Rightarrow> n);
          llr_text = (case art_text llr of None \<Rightarrow> [] | Some t \<Rightarrow> t);
          llr_refs = referenced_ids llr
      in if py_in var_name llr_text
         then (1.0, [''Exact match: '' @ quoted var_name @ '' in LLR text''])
         else if lower var_name \<in> set (map lower llr_refs)
         then (0.9, [''Variable '' @ quoted var_name @ '' extracted from LLR text''])
         else let var_parts = py_split (CHR ''_'') (lower var_name);
                  matches = length (filter (\<lambda>part. py_in part (lower llr_text)) var_parts)
              in if matches > 0
                 then (0.5 + (0.3 * real matches / real (length var_parts)),
                       [''Partial match: '' @ str_nat matches @ ''/''
                          @ str_nat (length var_parts) @ '' parts of '' @ quoted var_name])
                 else (0.0, []))"

record weights =
  w_embedding :: real
  w_keyword :: real
  w_quantity :: real
  w_name :: real

definition default_weights :: weights where
  "default_weights =
     \<lparr>w_embedding = 0.45, w_keyword = 0.25, w_quantity = 0.15, w_name = 0.15\<rparr>"

definition compute_combined_score ::
  "real \<Rightarrow> real \<Rightarrow> bool \<Rightarrow> real \<Rightarrow> real \<Rightarrow> weights option \<Rightarrow> real" where
  "compute_combined_score embedding_sim keyword_score quantity_match name_match_score id_boost
      weights_arg =
     (let w = (case weights_arg of None \<Rightarrow> default_weights | Some w' \<Rightarrow> w');
          score = w_embedding w * embedding_sim
                + w_keyword w * keyword_score
                + w_quantity w * (if quantity_match then 1.0 else 0.0)
                + w_name w * name_match_score
      in min 1.0 (score + id_boost))"

section \<open>Quality filters\<close>

text \<open>
  The \<^verbatim>\<open>quality_filters\<close> dictionary of the configuration; a key that is absent is
  \<open>None\<close> and the code's \<^verbatim>\<open>get\<close> supplies the default.
\<close>

record quality_filters =
  min_text_overlap :: "real option"
  min_combined_signals :: "int option"
  max_links_per_source :: "int option"

definition opt_get :: "'a option \<Rightarrow> 'a \<Rightarrow> 'a" where
  "opt_get v dflt = (case v of None \<Rightarrow> dflt | Some x \<Rightarrow> x)"

text \<open>The filters of config.py.\<close>

definition default_quality_filters :: quality_filters where
  "default_quality_filters =
     \<lparr>min_text_overlap = Some 0.05, min_combined_signals = Some 2,
      max_links_per_source = Some 15\<rparr>"

record match_details =
  md_embedding_similarity :: real
  md_keyword_score :: real
  md_keyword_overlap :: "string list"
  md_quantity_match :: bool
  md_quantities_matched :: "string list"
  md_name_match_score :: real
  md_name_match_reasons :: "string list option"
  md_id_boost :: real
  md_combined_score :: real

text \<open>The five moderate signals, counted as both filters count them.\<close>

definition count_signals :: "real \<Rightarrow> real \<Rightarrow> bool \<Rightarrow> real \<Rightarrow> real \<Rightarrow> int" where
  "count_signals emb_sim keyword_score quantity_match name_score id_boost =
     (if emb_sim > 0.12 then 1 else 0)
   + (if keyword_score > 0.05 then 1 else 0)
   + (if quantity_match then 1 else 0)
   + (if name_score > 0.10 then 1 else 0)
   + (if id_boost > 0.05 then 1 else 0)"

text \<open>\<^verbatim>\<open>HierarchicalLinker._passes_quality_filters\<close>.\<close>

definition passes_quality_filters_h ::
  "quality_filters \<Rightarrow> real \<Rightarrow> real \<Rightarrow> real \<Rightarrow> bool \<Rightarrow> real \<Rightarrow> real \<Rightarrow> bool" where
  "passes_quality_filters_h filters combined_score emb_sim keyword_score quantity_match
      name_score id_boost =
     (if combined_score < opt_get (min_text_overlap filters) 0.05 then False
      else let has_strong_signal =
                 (keyword_score > 0.20 \<or> emb_sim > 0.30
                    \<or> (emb_sim > 0.20 \<and> keyword_score > 0.12))
           in if has_strong_signal then True
              else count_signals emb_sim keyword_score quantity_match name_score id_boost
                     \<ge> opt_get (min_combined_signals filters) 2)"

text \<open>\<^verbatim>\<open>LinkManager._passes_quality_filters\<close>.\<close>

definition passes_quality_filters_lm :: "quality_filters \<Rightarrow> match_details \<Rightarrow> bool" where
  "passes_quality_filters_lm filters md =
     (let min_overlap = opt_get (min_text_overlap filters) 0.05;
          emb_score = md_embedding_similarity md
      in if emb_score < min_overlap then False
         else let has_strong_keywords = md_keyword_score md > 0.20;
                  has_strong_embedding = md_embedding_similarity md > 0.30;
                  has_strong_combo =
                    (md_embedding_similarity md > 0.20 \<and> md_keyword_score md > 0.12)
              in if has_strong_keywords \<or> has_strong_embedding \<or> has_strong_combo then True
                 else let active_signals =
                            count_signals (md_embedding_similarity md) (md_keyword_score md)
                              (md_quantity_match md) (md_name_match_score md) (md_id_boost md);
                          min_signals = opt_get (min_combined_signals filters) 2
                      in if active_signals \<ge> min_signals then True
                         else if md_id_boost md > 0.10 \<and> active_signals \<ge> 1 then True
                         else False)"

section \<open>Candidate generation\<close>

text \<open>
  The embedding index is an oracle: \<open>get_embedding\<close> gives the stored vector of an id,
  if any, and \<open>search_similar\<close> the ranked neighbours of a vector for a result limit
  and a score threshold. \<^verbatim>\<open>compute_keyword_score\<close> and
  \<^verbatim>\<open>compute_quantity_match\<close> are parameters as well: their match lists depend on
  the iteration order of Python sets and on float formatting, and nothing below depends
  on what they return.
\<close>

record 'e indexer =
  get_embedding :: "string \<Rightarrow> 'e option"
  search_similar :: "'e \<Rightarrow> int \<Rightarrow> real \<Rightarrow> (string \<times> real) list"

record scorers =
  compute_keyword_score :: "artifact \<Rightarrow> artifact \<Rightarrow> real \<times> string list"
  compute_quantity_match :: "artifact \<Rightarrow> artifact \<Rightarrow> bool \<times> string list"

record linking_config =
  embedding_threshold :: real
  cfg_weights :: weights
  cfg_quality_filters :: quality_filters

text \<open>The slice \<^verbatim>\<open>xs[:k]\<close>; a negative \<open>k\<close> counts from the end.\<close>

definition py_take :: "int \<Rightarrow> 'a list \<Rightarrow> 'a list" where
  "py_take k xs = (if k \<ge> 0 then take (nat k) xs else take (nat (int (length xs) + k)) xs)"

text \<open>
  \<^verbatim>\<open>xs.sort(key=f, reverse=True)\<close>: descending in the key, equal keys in their
  original order.
\<close>

definition sort_desc :: "('a \<Rightarrow> real) \<Rightarrow> 'a list \<Rightarrow> 'a list" where
  "sort_desc f xs = sort_key (\<lambda>x. - f x) xs"

record candidate =
  cand_target_id :: string
  cand_score :: real
  cand_match_details :: match_details

text \<open>One pass of the loop body of \<^verbatim>\<open>HierarchicalLinker._find_candidates\<close>.\<close>

definition h_candidate ::
  "(string \<times> artifact) list \<Rightarrow> linking_config \<Rightarrow> scorers \<Rightarrow> artifact \<Rightarrow> string \<Rightarrow> real
     \<Rightarrow> string \<times> real \<Rightarrow> candidate option" where
  "h_candidate artifacts config sc source target_type threshold entry =
     (case entry of (target_id, emb_sim) \<Rightarrow>
      (case map_of artifacts target_id of
         None \<Rightarrow> None
       | Some target \<Rightarrow>
           if art_type target \<noteq> target_type then None
           else
             (case compute_keyword_score sc source target of (keyword_score, keywords) \<Rightarrow>
              (case compute_quantity_match sc source target of (quantity_match, quantities) \<Rightarrow>
               (let name_score =
                      (if art_type source = ''LLR'' \<and> art_type target = ''CODE_VAR''
                       then fst (compute_variable_name_match source target) else 0.0);
                    id_boost = compute_id_relationship_boost (art_id source) target_id;
                    combined_score =
                      compute_combined_score emb_sim keyword_score quantity_match name_score
                        id_boost None
                in if \<not> passes_quality_filters_h (cfg_quality_filters config) combined_score
                          emb_sim keyword_score quantity_match name_score id_boost
                   then None
                   else if combined_score \<ge> threshold
                   then Some
                     \<lparr>cand_target_id = target_id,
                      cand_score = combined_score,
                      cand_match_details =
                        \<lparr>md_embedding_similarity = emb_sim,
                         md_keyword_score = keyword_score,
                         md_keyword_overlap = keywords,
                         md_quantity_match = quantity_match,
                         md_quantities_matched = quantities,
                         md_name_match_score = name_score,
                         md_name_match_reasons = None,
                         md_id_boost = id_boost,
                         md_combined_score = combined_score\<rparr>\<rparr>
                   else None)))))"

definition find_candidates_h ::
  "(string \<times> artifact) list \<Rightarrow> 'e indexer \<Rightarrow> linking_config \<Rightarrow> scorers \<Rightarrow> artifact \<Rightarrow> string
     \<Rightarrow> real \<Rightarrow> int \<Rightarrow> candidate list" where
  "find_candidates_h artifacts ix config sc source target_type threshold top_k =
     (case get_embedding ix (art_id source) of
        None \<Rightarrow> []
      | Some embedding \<Rightarrow>
          (let similar = search_similar ix embedding (top_k * 2) (embedding_threshold config);
               candidates =
                 List.map_filter (h_candidate artifacts config sc source target_type threshold)
                   similar
           in py_take top_k (sort_desc cand_score candidates)))"

text \<open>One pass of the loop body of \<^verbatim>\<open>LinkManager.find_candidates\<close>.\<close>

definition lm_candidate ::
  "(string \<times> artifact) list \<Rightarrow> linking_config \<Rightarrow> scorers \<Rightarrow> string \<Rightarrow> artifact \<Rightarrow> string
     \<Rightarrow> string \<times> real \<Rightarrow> (string \<times> real \<times> match_details) option" where
  "lm_candidate artifacts config sc source_id source target_type entry =
     (case entry of (candidate_id, emb_score) \<Rightarrow>
      if candidate_id = source_id then None
      else
      (case map_of artifacts candidate_id of
         None \<Rightarrow> None
       | Some cand \<Rightarrow>
           if art_type cand \<noteq> target_type then None
           else
             (case compute_keyword_score sc source cand of (keyword_score, keyword_matches) \<Rightarrow>
              (case compute_quantity_match sc source cand of (quantity_match, quantity_matches) \<Rightarrow>
               (case (if target_type = ''CODE_VAR'' then compute_variable_name_match source cand
                      else (0.0, []))
                of (name_score, name_reasons) \<Rightarrow>
               (let id_boost = compute_id_relationship_boost source_id candidate_id;
                    combined_score =
                      compute_combined_score emb_score keyword_score quantity_match name_score
                        id_boost (Some (cfg_weights config));
                    details =
                      \<lparr>md_embedding_similarity = emb_score,
                       md_keyword_score = keyword_score,
                       md_keyword_overlap = keyword_matches,
                       md_quantity_match = quantity_match,
                       md_quantities_matched = quantity_matches,
                       md_name_match_score = name_score,
                       md_name_match_reasons = Some name_reasons,
                       md_id_boost = id_boost,
                       md_combined_score = combined_score\<rparr>
                in if passes_quality_filters_lm (cfg_quality_filters config) details
                   then Some (candidate_id, combined_score, details)
                   else None))))))"

definition find_candidates_lm ::
  "(string \<times> artifact) list \<Rightarrow> 'e indexer \<Rightarrow> linking_config \<Rightarrow> scorers \<Rightarrow> string \<Rightarrow> string
     \<Rightarrow> int \<Rightarrow> py_error + (string \<times> real \<times> match_details) list" where
  "find_candidates_lm artifacts ix config sc source_id target_type top_k =
     (case map_of artifacts source_id of
        None \<Rightarrow> Inl KeyError
      | Some source \<Rightarrow>
         (case get_embedding ix source_id of
            None \<Rightarrow> Inr []
          | Some source_emb \<Rightarrow>
              (let candidates =
                     search_similar ix source_emb (top_k * 3) (embedding_threshold config);
                   results =
                     List.map_filter
                       (lm_candidate artifacts config sc source_id source target_type) candidates;
                   max_links = opt_get (max_links_per_source (cfg_quality_filters config)) 8
               in Inr (py_take (min top_k max_links) (sort_desc (\<lambda>r. fst (snd r)) results)))))"

section \<open>LLM selection (hierarchical_linker.py)\<close>









section \<open>Example inputs\<close>

text \<open>
  The synthetic chain of the specification, SYS-001, SYS-001-A, HLR-001-A, LLR-001-A-1,
  VAR-007, beside a system requirement SYS-002 that nothing is linked to; and a graph
  whose only link leads from a node back to itself.
\<close>

definition mk_artifact :: "string \<Rightarrow> string \<Rightarrow> artifact" where
  "mk_artifact i t =
     \<lparr>art_id = i, art_type = t, art_text = Some [], art_name = None, referenced_ids = []\<rparr>"

definition example_artifacts :: "(string \<times> artifact) list" where
  "example_artifacts =
     [(''SYS-001'', mk_artifact ''SYS-001'' ''SYSTEM_REQ''),
      (''SYS-002'', mk_artifact ''SYS-002'' ''SYSTEM_REQ''),
      (''SYS-001-A'', mk_artifact ''SYS-001-A'' ''SYSTEM_REQ_DECOMPOSED''),
      (''HLR-001-A'', mk_artifact ''HLR-001-A'' ''HLR''),
      (''LLR-001-A-1'', mk_artifact ''LLR-001-A-1'' ''LLR''),
      (''VAR-007'', mk_artifact ''VAR-007'' ''CODE_VAR'')]"

definition example_graph :: graph where
  "example_graph =
     \<lparr>nodes = example_artifacts,
      edges_down =
        [(''SYS-001'', [''SYS-001-A'']), (''SYS-001-A'', [''HLR-001-A'']),
         (''HLR-001-A'', [''LLR-001-A-1'']), (''LLR-001-A-1'', [''VAR-007''])],
      edges_up =
        [(''SYS-001-A'', [''SYS-001'']), (''HLR-001-A'', [''SYS-001-A'']),
         (''LLR-001-A-1'', [''HLR-001-A'']), (''VAR-007'', [''LLR-001-A-1''])]\<rparr>"


definition cyclic_graph :: graph where
  "cyclic_graph =
     \<lparr>nodes = [(''A'', mk_artifact ''A'' ''SYSTEM_REQ'')],
      edges_down = [(''A'', [''A''])],
      edges_up = [(''A'', [''A''])]\<rparr>"

text \<open>
  A candidate whose only signal is the id boost of a parent reference, and candidates
  of a given id and score for the selection step.
\<close>

definition weak_match :: match_details where
  "weak_match =
     \<lparr>md_embedding_similarity = 0.11, md_keyword_score = 0, md_keyword_overlap = [],
      md_quantity_match = False, md_quantities_matched = [], md_name_match_score = 0,
      md_name_match_reasons = Some [], md_id_boost = 0.3, md_combined_score = 0.3385\<rparr>"


text \<open>
  An index that knows every id and answers every query with the same neighbours, the
  configuration of config.py, and scorers that find no keyword or quantity in common.
\<close>

definition example_indexer :: "(string \<times> real) list \<Rightarrow> unit indexer" where
  "example_indexer neighbours =
     \<lparr>get_embedding = (\<lambda>i. Some ()), search_similar = (\<lambda>e k t. neighbours)\<rparr>"

definition example_config :: linking_config where
  "example_config =
     \<lparr>embedding_threshold = 0.10,
      cfg_weights = \<lparr>w_embedding = 0.35, w_keyword = 0.35, w_quantity = 0.15, w_name = 0.15\<rparr>,
      cfg_quality_filters = default_quality_filters\<rparr>"

definition example_scorers :: scorers where
  "example_scorers =
     \<lparr>compute_keyword_score = (\<lambda>a b. (0, [])), compute_quantity_match = (\<lambda>a b. (False, []))\<rparr>"


text \<open>
  A crowded layer: the decomposed requirement SYS-001-A beside sixteen high-level
  requirements, each of which the index returns as a neighbour with similarity 0.5.
\<close>

definition crowded_hlr_ids :: "string list" where
  "crowded_hlr_ids =
     [''HLR-001-A'', ''HLR-002-A'', ''HLR-003-A'', ''HLR-004-A'',
      ''HLR-005-A'', ''HLR-006-A'', ''HLR-007-A'', ''HLR-008-A'',
      ''HLR-009-A'', ''HLR-010-A'', ''HLR-011-A'', ''HLR-012-A'',
      ''HLR-013-A'', ''HLR-014-A'', ''HLR-015-A'', ''HLR-016-A'']"

definition crowded_artifacts :: "(string \<times> artifact) list" where
  "crowded_artifacts =
     (''SYS-001-A'', mk_artifact ''SYS-001-A'' ''SYSTEM_REQ_DECOMPOSED'')
       # map (\<lambda>i. (i, mk_artifact i ''HLR'')) crowded_hlr_ids"

definition crowded_neighbours :: "(string \<times> real) list" where
  "crowded_neighbours = map (\<lambda>i. (i, 0.5)) crowded_hlr_ids"
section \<open>Properties of the chain classifier\<close>

lemma expected_terminal_is_code_var:
  "dict_get EXPECTED_TERMINAL_TYPE t ''CODE_VAR'' = ''CODE_VAR''"
  by (simp add: dict_get_def EXPECTED_TERMINAL_TYPE_def)

lemma classify_chain_nonempty:
  assumes "chain \<noteq> []"
    and "map_of (nodes g) (hd chain) = Some start"
    and "map_of (nodes g) (last chain) = Some terminal"
  shows "classify_chain chain g =
     (if art_type terminal = ''CODE_VAR''
         \<and> dict_get EXPECTED_CHAIN_DEPTH (art_type start) 1 \<le> length chain
      then Inr COMPLETE
      else if 1 < length chain \<and> length chain < dict_get EXPECTED_CHAIN_DEPTH (art_type start) 1
      then Inr PARTIAL
      else if length chain = 1 then Inr INCOMPLETE
      else Inr BROKEN)"
  using assms by (simp add: classify_chain_def expected_terminal_is_code_var Let_def)

text \<open>
  Claim C2. For a non-empty chain whose first and last ids are nodes of the graph, and
  whose root has one of the five artifact types with expected depth \<open>d\<close> (SYSTEM_REQ 5,
  SYSTEM_REQ_DECOMPOSED 4, HLR 3, LLR 2, CODE_VAR 1), the classifier returns COMPLETE
  exactly when the terminal artifact is a CODE_VAR and the chain has at least \<open>d\<close>
  nodes; a chain that is not complete is PARTIAL when its length is above 1 and below
  \<open>d\<close>, INCOMPLETE when its length is 1, and BROKEN in every other case. The clauses
  are read in the order the claim lists them, as its closing "otherwise" says.
\<close>

theorem classify_chain_spec:
  assumes "chain \<noteq> []"
    and "map_of (nodes g) (hd chain) = Some start"
    and "map_of (nodes g) (last chain) = Some terminal"
    and "(art_type start = ''SYSTEM_REQ'' \<and> d = 5)
       \<or> (art_type start = ''SYSTEM_REQ_DECOMPOSED'' \<and> d = 4)
       \<or> (art_type start = ''HLR'' \<and> d = 3)
       \<or> (art_type start = ''LLR'' \<and> d = 2)
       \<or> (art_type start = ''CODE_VAR'' \<and> d = 1)"
  shows "(classify_chain chain g = Inr COMPLETE
            \<longleftrightarrow> art_type terminal = ''CODE_VAR'' \<and> d \<le> length chain)
       \<and> (1 < length chain \<and> length chain < d \<longrightarrow> classify_chain chain g = Inr PARTIAL)
       \<and> (length chain = 1 \<and> \<not> (art_type terminal = ''CODE_VAR'' \<and> d \<le> length chain)
            \<longrightarrow> classify_chain chain g = Inr INCOMPLETE)
       \<and> (\<not> (art_type terminal = ''CODE_VAR'' \<and> d \<le> length chain)
            \<and> \<not> (1 < length chain \<and> length chain < d) \<and> length chain \<noteq> 1
            \<longrightarrow> classify_chain chain g = Inr BROKEN)"
proof -
  have d: "dict_get EXPECTED_CHAIN_DEPTH (art_type start) 1 = d"
    using assms(4) by (auto simp: dict_get_def EXPECTED_CHAIN_DEPTH_def)
  show ?thesis
    unfolding classify_chain_nonempty [OF assms(1-3)] d by auto
qed

lemma example_nodes:
  "map_of (nodes example_graph) ''SYS-001'' = Some (mk_artifact ''SYS-001'' ''SYSTEM_REQ'')"
  "map_of (nodes example_graph) ''SYS-001-A''
     = Some (mk_artifact ''SYS-001-A'' ''SYSTEM_REQ_DECOMPOSED'')"
  "map_of (nodes example_graph) ''VAR-007'' = Some (mk_artifact ''VAR-007'' ''CODE_VAR'')"
  by (simp_all add: example_graph_def example_artifacts_def)

theorem classify_chain_spec_witness:
  "classify_chain [''SYS-001'', ''SYS-001-A''] example_graph = Inr PARTIAL
   \<and> classify_chain [''SYS-001'', ''SYS-001-A'', ''HLR-001-A'', ''LLR-001-A-1'', ''VAR-007'']
        example_graph = Inr COMPLETE"
  using classify_chain_spec [of "[''SYS-001'', ''SYS-001-A'']" example_graph
          "mk_artifact ''SYS-001'' ''SYSTEM_REQ''"
          "mk_artifact ''SYS-001-A'' ''SYSTEM_REQ_DECOMPOSED''" 5]
        classify_chain_spec
          [of "[''SYS-001'', ''SYS-001-A'', ''HLR-001-A'', ''LLR-001-A-1'', ''VAR-007'']"
            example_graph "mk_artifact ''SYS-001'' ''SYSTEM_REQ''"
            "mk_artifact ''VAR-007'' ''CODE_VAR''" 5]
  by (simp add: example_nodes mk_artifact_def)

text \<open>
  Claim C9, as amended. The classifier does return a classification for the empty
  chain: it answers INCOMPLETE before it reads the graph, whatever the graph is.
\<close>

theorem classify_chain_empty: "classify_chain [] g = Inr INCOMPLETE"
  by (simp add: classify_chain_def)

text \<open>The claim as stated fails: the empty chain over the empty graph is classified.\<close>

theorem classify_chain_empty_counterexample:
  "classify_chain [] \<lparr>nodes = [], edges_down = [], edges_up = []\<rparr> = Inr INCOMPLETE"
  by (simp add: classify_chain_def)

section \<open>Properties of chain enumeration\<close>

lemma cyclic_children: "dict_get (edges_down cyclic_graph) ''A'' [] = [''A'']"
  by (simp add: cyclic_graph_def dict_get_def)

lemma dfs_cyclic: "dfs limit cyclic_graph ''A'' path found = Inl RecursionError"
proof (induction limit arbitrary: path found)
  case 0
  show ?case by simp
next
  case (Suc limit)
  show ?case by (simp add: cyclic_children Suc.IH)
qed

text \<open>
  Claim C4, at the input where \<^verbatim>\<open>trace_chain_forward\<close> breaks it. On the graph whose
  only edge leads from A back to A, the search of analyzer.py exhausts every bound on
  its recursion depth: it has no visited set and never returns a list of chains.
\<close>

theorem trace_chain_forward_cycle:
  "trace_chain_forward limit cyclic_graph ''A'' = Inl RecursionError"
  by (simp add: trace_chain_forward_def dfs_cyclic)

text \<open>
  The guarded search of hierarchical_analyzer.py is a total function (its termination
  is proved where it is defined) and returns on the same graph; the search of
  analyzer.py returns on the acyclic example.
\<close>

lemma find_all_chains_cycle: "find_all_chains ''A'' cyclic_graph = []"
  by (simp add: find_all_chains_def cyclic_children)

lemma example_children:
  "dict_get (edges_down example_graph) ''SYS-001'' [] = [''SYS-001-A'']"
  "dict_get (edges_down example_graph) ''SYS-001-A'' [] = [''HLR-001-A'']"
  "dict_get (edges_down example_graph) ''HLR-001-A'' [] = [''LLR-001-A-1'']"
  "dict_get (edges_down example_graph) ''LLR-001-A-1'' [] = [''VAR-007'']"
  "dict_get (edges_down example_graph) ''VAR-007'' [] = []"
  "dict_get (edges_down example_graph) ''SYS-002'' [] = []"
  by (simp_all add: example_graph_def dict_get_def)


lemma find_all_chains_example:
  "find_all_chains ''SYS-001'' example_graph
     = [[''SYS-001'', ''SYS-001-A'', ''HLR-001-A'', ''LLR-001-A-1'', ''VAR-007'']]"
  by (simp add: find_all_chains_def example_children)

section \<open>Properties of gap detection\<close>









section \<open>Properties of the quality filters\<close>

text \<open>
  The filter of the hierarchical linker is conservative whenever its configured number
  of moderate signals is at least the default 2: what it accepts has a strong signal or
  two moderate ones.
\<close>

lemma passes_quality_filters_h_conservative:
  assumes "passes_quality_filters_h filters combined_score emb_sim keyword_score
             quantity_match name_score id_boost"
    and "2 \<le> opt_get (min_combined_signals filters) 2"
  shows "(keyword_score > 0.20 \<or> emb_sim > 0.30 \<or> (emb_sim > 0.20 \<and> keyword_score > 0.12))
       \<or> 2 \<le> count_signals emb_sim keyword_score quantity_match name_score id_boost"
  using assms by (auto simp: passes_quality_filters_h_def Let_def split: if_splits)

text \<open>
  What the filter of \<^verbatim>\<open>LinkManager\<close> accepts has a strong signal, two moderate
  signals, or an id boost above 0.10.
\<close>

lemma passes_quality_filters_lm_accepts:
  assumes "passes_quality_filters_lm filters md"
    and "2 \<le> opt_get (min_combined_signals filters) 2"
  shows "(md_keyword_score md > 0.20 \<or> md_embedding_similarity md > 0.30
            \<or> (md_embedding_similarity md > 0.20 \<and> md_keyword_score md > 0.12))
       \<or> 2 \<le> count_signals (md_embedding_similarity md) (md_keyword_score md)
                 (md_quantity_match md) (md_name_match_score md) (md_id_boost md)
       \<or> md_id_boost md > 0.10"
  using assms by (auto simp: passes_quality_filters_lm_def Let_def split: if_splits)

text \<open>
  Claim C1, at the input where the filter of \<^verbatim>\<open>LinkManager\<close> breaks it. A candidate
  with embedding similarity 0.11, no keyword, quantity or name signal and the id boost
  0.3 of a parent reference is accepted under the default filters, with no strong
  signal and one moderate signal, the id boost: the special case of the filter counts
  the boost itself as the one other signal it asks for.
\<close>

theorem passes_quality_filters_lm_single_signal:
  "passes_quality_filters_lm default_quality_filters weak_match
   \<and> \<not> (md_keyword_score weak_match > 0.20 \<or> md_embedding_similarity weak_match > 0.30
          \<or> (md_embedding_similarity weak_match > 0.20 \<and> md_keyword_score weak_match > 0.12))
   \<and> count_signals (md_embedding_similarity weak_match) (md_keyword_score weak_match)
         (md_quantity_match weak_match) (md_name_match_score weak_match)
         (md_id_boost weak_match) = 1"
  by (simp add: passes_quality_filters_lm_def default_quality_filters_def opt_get_def
      count_signals_def weak_match_def)

section \<open>Properties of the match signals\<close>

lemma py_in_empty: "py_in [] ys"
  by (cases ys) simp_all

text \<open>
  Claim C10. When the name of the candidate variable is the empty string, the name
  match of any LLR, whatever its text, scores 1.0 with the single reason that the
  (empty) name matches exactly in the LLR text.
\<close>

theorem compute_variable_name_match_empty_name:
  assumes "art_name variable = Some []"
  shows "compute_variable_name_match llr variable
           = (1, [''Exact match: '' @ [CHR 0x27, CHR 0x27] @ '' in LLR text''])"
  using assms by (simp add: compute_variable_name_match_def py_in_empty quoted_def)

theorem compute_variable_name_match_empty_name_witness:
  "compute_variable_name_match
     \<lparr>art_id = ''LLR-001-A-1'', art_type = ''LLR'',
      art_text = Some ''The controller shall sample the altitude'', art_name = None,
      referenced_ids = []\<rparr>
     \<lparr>art_id = ''VAR-007'', art_type = ''CODE_VAR'', art_text = Some [],
      art_name = Some [], referenced_ids = []\<rparr>
   = (1, [''Exact match: '' @ [CHR 0x27, CHR 0x27] @ '' in LLR text''])"
  using compute_variable_name_match_empty_name
    [of "\<lparr>art_id = ''VAR-007'', art_type = ''CODE_VAR'', art_text = Some [],
          art_name = Some [], referenced_ids = []\<rparr>"
        "\<lparr>art_id = ''LLR-001-A-1'', art_type = ''LLR'',
          art_text = Some ''The controller shall sample the altitude'', art_name = None,
          referenced_ids = []\<rparr>"]
  by simp

section \<open>Properties of the combined score\<close>

lemma combined_score_eq:
  "compute_combined_score e k q n b wa
     = min 1 (w_embedding (opt_get wa default_weights) * e
               + w_keyword (opt_get wa default_weights) * k
               + w_quantity (opt_get wa default_weights) * (if q then 1 else 0)
               + w_name (opt_get wa default_weights) * n + b)"
  by (simp add: compute_combined_score_def opt_get_def Let_def split: option.splits)

lemma min_one_mono: "x \<le> y \<Longrightarrow> min (1::real) x \<le> min 1 y"
  by (rule min.mono [OF order_refl])

lemma combined_score_mono_embedding:
  assumes "0 \<le> w_embedding (opt_get wa default_weights)" and "e \<le> e'"
  shows "compute_combined_score e k q n b wa \<le> compute_combined_score e' k q n b wa"
proof -
  have "w_embedding (opt_get wa default_weights) * e
          \<le> w_embedding (opt_get wa default_weights) * e'"
    using assms by (intro mult_left_mono)
  then show ?thesis
    unfolding combined_score_eq by (intro min_one_mono) linarith
qed

lemma combined_score_mono_keyword:
  assumes "0 \<le> w_keyword (opt_get wa default_weights)" and "k \<le> k'"
  shows "compute_combined_score e k q n b wa \<le> compute_combined_score e k' q n b wa"
proof -
  have "w_keyword (opt_get wa default_weights) * k
          \<le> w_keyword (opt_get wa default_weights) * k'"
    using assms by (intro mult_left_mono)
  then show ?thesis
    unfolding combined_score_eq by (intro min_one_mono) linarith
qed

lemma combined_score_mono_quantity:
  assumes "0 \<le> w_quantity (opt_get wa default_weights)" and "q \<longrightarrow> q'"
  shows "compute_combined_score e k q n b wa \<le> compute_combined_score e k q' n b wa"
proof -
  have "w_quantity (opt_get wa default_weights) * (if q then 1 else 0)
          \<le> w_quantity (opt_get wa default_weights) * (if q' then 1 else 0)"
    using assms by (intro mult_left_mono) auto
  then show ?thesis
    unfolding combined_score_eq by (intro min_one_mono) linarith
qed

lemma combined_score_mono_name:
  assumes "0 \<le> w_name (opt_get wa default_weights)" and "n \<le> n'"
  shows "compute_combined_score e k q n b wa \<le> compute_combined_score e k q n' b wa"
proof -
  have "w_name (opt_get wa default_weights) * n
          \<le> w_name (opt_get wa default_weights) * n'"
    using assms by (intro mult_left_mono)
  then show ?thesis
    unfolding combined_score_eq by (intro min_one_mono) linarith
qed

lemma combined_score_mono_boost:
  assumes "b \<le> b'"
  shows "compute_combined_score e k q n b wa \<le> compute_combined_score e k q n b' wa"
  unfolding combined_score_eq using assms by (intro min_one_mono) linarith

lemma combined_score_le_one: "compute_combined_score e k q n b wa \<le> 1"
  unfolding combined_score_eq by simp

lemma combined_score_nonneg:
  assumes "0 \<le> w_embedding (opt_get wa default_weights)"
    "0 \<le> w_keyword (opt_get wa default_weights)"
    "0 \<le> w_quantity (opt_get wa default_weights)"
    "0 \<le> w_name (opt_get wa default_weights)"
    and "0 \<le> e" "0 \<le> k" "0 \<le> n" "0 \<le> b"
  shows "0 \<le> compute_combined_score e k q n b wa"
proof -
  have "0 \<le> w_embedding (opt_get wa default_weights) * e"
    "0 \<le> w_keyword (opt_get wa default_weights) * k"
    "0 \<le> w_name (opt_get wa default_weights) * n"
    "0 \<le> w_quantity (opt_get wa default_weights) * (if q then 1 else 0)"
    using assms by auto
  then have "0 \<le> w_embedding (opt_get wa default_weights) * e
                 + w_keyword (opt_get wa default_weights) * k
                 + w_quantity (opt_get wa default_weights) * (if q then 1 else 0)
                 + w_name (opt_get wa default_weights) * n + b"
    using assms(8) by linarith
  then show ?thesis
    unfolding combined_score_eq by simp
qed

text \<open>
  Claim C7, as amended. The weights in force are the configured ones, or the defaults
  when none are given. With the other signals and the weights fixed, the combined score
  does not decrease when the id boost grows, whatever the weights, nor when the
  embedding similarity, the keyword score, the quantity flag or the name score grows,
  provided the weight of that signal is not negative. For every input and all weights
  the score is at most 1. It is at least 0 when the four weights and the embedding
  similarity, keyword score, name score and id boost are not negative.
\<close>

theorem combined_score_monotone_bounded:
  "(0 \<le> w_embedding (opt_get wa default_weights) \<and> e \<le> e' \<longrightarrow>
      compute_combined_score e k q n b wa \<le> compute_combined_score e' k q n b wa)
   \<and> (0 \<le> w_keyword (opt_get wa default_weights) \<and> k \<le> k' \<longrightarrow>
      compute_combined_score e k q n b wa \<le> compute_combined_score e k' q n b wa)
   \<and> (0 \<le> w_quantity (opt_get wa default_weights) \<and> (q \<longrightarrow> q') \<longrightarrow>
      compute_combined_score e k q n b wa \<le> compute_combined_score e k q' n b wa)
   \<and> (0 \<le> w_name (opt_get wa default_weights) \<and> n \<le> n' \<longrightarrow>
      compute_combined_score e k q n b wa \<le> compute_combined_score e k q n' b wa)
   \<and> (b \<le> b' \<longrightarrow>
      compute_combined_score e k q n b wa \<le> compute_combined_score e k q n b' wa)
   \<and> compute_combined_score e k q n b wa \<le> 1
   \<and> (0 \<le> w_embedding (opt_get wa default_weights)
        \<and> 0 \<le> w_keyword (opt_get wa default_weights)
        \<and> 0 \<le> w_quantity (opt_get wa default_weights)
        \<and> 0 \<le> w_name (opt_get wa default_weights)
        \<and> 0 \<le> e \<and> 0 \<le> k \<and> 0 \<le> n \<and> 0 \<le> b \<longrightarrow>
      0 \<le> compute_combined_score e k q n b wa)"
proof (intro conjI impI)
  show "compute_combined_score e k q n b wa \<le> compute_combined_score e' k q n b wa"
    if "0 \<le> w_embedding (opt_get wa default_weights) \<and> e \<le> e'"
    using that combined_score_mono_embedding by blast
  show "compute_combined_score e k q n b wa \<le> compute_combined_score e k' q n b wa"
    if "0 \<le> w_keyword (opt_get wa default_weights) \<and> k \<le> k'"
    using that combined_score_mono_keyword by blast
  show "compute_combined_score e k q n b wa \<le> compute_combined_score e k q' n b wa"
    if "0 \<le> w_quantity (opt_get wa default_weights) \<and> (q \<longrightarrow> q')"
    using that combined_score_mono_quantity by blast
  show "compute_combined_score e k q n b wa \<le> compute_combined_score e k q n' b wa"
    if "0 \<le> w_name (opt_get wa default_weights) \<and> n \<le> n'"
    using that combined_score_mono_name by blast
  show "compute_combined_score e k q n b wa \<le> compute_combined_score e k q n b' wa"
    if "b \<le> b'"
    using that by (rule combined_score_mono_boost)
  show "compute_combined_score e k q n b wa \<le> 1"
    by (rule combined_score_le_one)
  show "0 \<le> compute_combined_score e k q n b wa"
    if "0 \<le> w_embedding (opt_get wa default_weights)
        \<and> 0 \<le> w_keyword (opt_get wa default_weights)
        \<and> 0 \<le> w_quantity (opt_get wa default_weights)
        \<and> 0 \<le> w_name (opt_get wa default_weights)
        \<and> 0 \<le> e \<and> 0 \<le> k \<and> 0 \<le> n \<and> 0 \<le> b"
    using that combined_score_nonneg by blast
qed

theorem combined_score_monotone_bounded_witness:
  "compute_combined_score 0.2 0.1 False 0 0 None \<le> compute_combined_score 0.4 0.1 False 0 0 None
   \<and> compute_combined_score 0.2 0.1 False 0 0 None \<le> compute_combined_score 0.2 0.3 False 0 0 None
   \<and> compute_combined_score 0.2 0.1 False 0 0 None \<le> compute_combined_score 0.2 0.1 True 0 0 None
   \<and> compute_combined_score 0.2 0.1 False 0 0 None \<le> compute_combined_score 0.2 0.1 False 1 0 None
   \<and> compute_combined_score 0.2 0.1 False 0 0 None \<le> compute_combined_score 0.2 0.1 False 0 0.3 None
   \<and> compute_combined_score 0.2 0.1 False 0 0 None \<le> 1
   \<and> 0 \<le> compute_combined_score 0.2 0.1 False 0 0 None"
  using combined_score_monotone_bounded
    [where wa = None and e = "0.2" and e' = "0.4" and k = "0.1" and k' = "0.3"
       and q = False and q' = True and n = 0 and n' = 1 and b = 0 and b' = "0.3"]
  by (simp add: opt_get_def default_weights_def)

text \<open>
  The claim as stated fails on both counts. Nothing clamps the score from below: with
  the default weights an embedding similarity of -1, which a cosine similarity can be,
  gives -0.45. And the weights are configuration: with the embedding weight -1 and the
  other weights 0, raising the embedding similarity from 0 to 1 lowers the score from 0
  to -1, although no signal is negative.
\<close>

theorem combined_score_negative_counterexample:
  "compute_combined_score (- 1) 0 False 0 0 None = - 0.45
   \<and> compute_combined_score 0 0 False 0 0
        (Some \<lparr>w_embedding = - 1, w_keyword = 0, w_quantity = 0, w_name = 0\<rparr>) = 0
   \<and> compute_combined_score 1 0 False 0 0
        (Some \<lparr>w_embedding = - 1, w_keyword = 0, w_quantity = 0, w_name = 0\<rparr>) = - 1"
  by (simp add: compute_combined_score_def default_weights_def)

section \<open>Properties of the LLM selection\<close>










section \<open>Properties of the identifier hierarchy\<close>

lemma class_facts:
  "\<not> is_upper (CHR ''-'')" "\<not> is_digit (CHR ''-'')"
  "is_upper c \<Longrightarrow> \<not> is_digit c" "is_digit c \<Longrightarrow> \<not> is_upper c"
  "is_upper c \<Longrightarrow> c \<noteq> CHR 0x0A" "is_digit c \<Longrightarrow> c \<noteq> CHR 0x0A"
  "CHR ''-'' \<noteq> CHR 0x0A"
  by (auto simp: is_upper_def is_digit_def)

lemma takeWhile_all:
  assumes "list_all P xs"
  shows "takeWhile P xs = xs" "dropWhile P xs = []"
  using assms by (induction xs) auto

lemma takeWhile_stop:
  assumes "list_all P xs" "\<not> P c"
  shows "takeWhile P (xs @ c # ys) = xs" "dropWhile P (xs @ c # ys) = c # ys"
  using assms by (induction xs) auto

lemma takeWhile_none:
  assumes "xs \<noteq> []" "list_all Q xs" "\<And>c. Q c \<Longrightarrow> \<not> P c"
  shows "takeWhile P xs = []" "dropWhile P xs = xs"
  using assms by (cases xs; simp)+

lemma no_trailing_newline:
  assumes "list_all (\<lambda>c. c \<noteq> CHR 0x0A) s"
  shows "(if s \<noteq> [] \<and> last s = CHR 0x0A then butlast s else s) = s"
proof (cases "s = []")
  case True
  then show ?thesis by simp
next
  case False
  then have "last s \<in> set s" by simp
  with assms have "last s \<noteq> CHR 0x0A" by (simp add: list_all_iff)
  then show ?thesis by simp
qed

lemma upper_no_newline: "list_all is_upper xs \<Longrightarrow> list_all (\<lambda>c. c \<noteq> CHR 0x0A) xs"
  by (induction xs) (auto simp: class_facts)

lemma digit_no_newline: "list_all is_digit xs \<Longrightarrow> list_all (\<lambda>c. c \<noteq> CHR 0x0A) xs"
  by (induction xs) (auto simp: class_facts)

lemma match_suffixes_cases:
  "match_suffixes [] = Some (None, None)"
  "l \<noteq> [] \<Longrightarrow> list_all is_upper l \<Longrightarrow> match_suffixes (CHR ''-'' # l) = Some (Some l, None)"
  "l \<noteq> [] \<Longrightarrow> list_all is_upper l \<Longrightarrow> n \<noteq> [] \<Longrightarrow> list_all is_digit n
     \<Longrightarrow> match_suffixes (CHR ''-'' # l @ CHR ''-'' # n) = Some (Some l, Some n)"
  "n \<noteq> [] \<Longrightarrow> list_all is_digit n \<Longrightarrow> match_suffixes (CHR ''-'' # n) = Some (None, Some n)"
proof -
  show "match_suffixes [] = Some (None, None)"
    by (simp add: match_suffixes_def)
  show "match_suffixes (CHR ''-'' # l) = Some (Some l, None)"
    if "l \<noteq> []" "list_all is_upper l"
    using that by (simp add: match_suffixes_def takeWhile_all)
  show "match_suffixes (CHR ''-'' # l @ CHR ''-'' # n) = Some (Some l, Some n)"
    if "l \<noteq> []" "list_all is_upper l" "n \<noteq> []" "list_all is_digit n"
    using that by (simp add: match_suffixes_def takeWhile_stop class_facts match_digits_end_def)
  show "match_suffixes (CHR ''-'' # n) = Some (None, Some n)"
    if "n \<noteq> []" "list_all is_digit n"
    using that takeWhile_none [of n is_digit is_upper]
    by (simp add: match_suffixes_def class_facts match_digits_end_def)
qed

lemma match_id_conforming:
  assumes "pref \<noteq> []" "list_all is_upper pref" "num \<noteq> []" "list_all is_digit num"
    and "case letter of None \<Rightarrow> True | Some l \<Rightarrow> l \<noteq> [] \<and> list_all is_upper l"
    and "case subnum of None \<Rightarrow> True | Some n \<Rightarrow> n \<noteq> [] \<and> list_all is_digit n"
  shows "match_id (pref @ ''-'' @ num
                     @ (case letter of None \<Rightarrow> [] | Some l \<Rightarrow> ''-'' @ l)
                     @ (case subnum of None \<Rightarrow> [] | Some n \<Rightarrow> ''-'' @ n))
         = Some (pref, num, letter, subnum)"
proof -
  let ?L = "case letter of None \<Rightarrow> [] | Some l \<Rightarrow> ''-'' @ l"
  let ?S = "case subnum of None \<Rightarrow> [] | Some n \<Rightarrow> ''-'' @ n"
  let ?s = "pref @ ''-'' @ num @ ?L @ ?S"
  have nl: "list_all (\<lambda>c. c \<noteq> CHR 0x0A) ?s"
    using assms upper_no_newline digit_no_newline
    by (auto simp: class_facts split: option.splits)
  have s: "(if ?s \<noteq> [] \<and> last ?s = CHR 0x0A then butlast ?s else ?s) = ?s"
    by (rule no_trailing_newline [OF nl])
  have p: "takeWhile is_upper ?s = pref" "dropWhile is_upper ?s = CHR ''-'' # num @ ?L @ ?S"
    using takeWhile_stop [OF assms(2) class_facts(1), of "num @ ?L @ ?S"] by simp_all
  have suff: "match_suffixes (?L @ ?S) = Some (letter, subnum)"
    using assms(5,6) by (auto simp: match_suffixes_cases split: option.splits)
  have n: "takeWhile is_digit (num @ ?L @ ?S) = num"
    "dropWhile is_digit (num @ ?L @ ?S) = ?L @ ?S"
    using takeWhile_stop [OF assms(4) class_facts(2)] takeWhile_all [OF assms(4)]
    by (auto split: option.splits)
  show ?thesis
    unfolding match_id_def s Let_def p
    using assms(1,3) by (simp add: n suff)
qed

text \<open>
  Claim C8, as amended. For an identifier PREFIX-NUMBER[-LETTERS][-DIGITS] (capital
  letters, digits) the resolver gives the base PREFIX-NUMBER and, as suffix, the letters
  or else the digits. It gives a parent reference only for an identifier with a letter
  suffix: SYS-NUMBER for the prefix HLR, without the suffix, and HLR-NUMBER-LETTERS for
  the prefix LLR; for every other prefix, and without a letter suffix, there is none.
\<close>

theorem extract_id_hierarchy_conforming:
  assumes "pref \<noteq> []" "list_all is_upper pref" "num \<noteq> []" "list_all is_digit num"
    and "case letter of None \<Rightarrow> True | Some l \<Rightarrow> l \<noteq> [] \<and> list_all is_upper l"
    and "case subnum of None \<Rightarrow> True | Some n \<Rightarrow> n \<noteq> [] \<and> list_all is_digit n"
  shows "extract_id_hierarchy
           (pref @ ''-'' @ num
              @ (case letter of None \<Rightarrow> [] | Some l \<Rightarrow> ''-'' @ l)
              @ (case subnum of None \<Rightarrow> [] | Some n \<Rightarrow> ''-'' @ n))
         = \<lparr>id_base = pref @ ''-'' @ num,
            id_suffix = (case letter of None \<Rightarrow> subnum | Some l \<Rightarrow> Some l),
            id_parent_ref =
              (case letter of
                 None \<Rightarrow> None
               | Some l \<Rightarrow>
                   if pref = ''HLR'' then Some (''SYS-'' @ num)
                   else if pref = ''LLR'' then Some (''HLR-'' @ num @ ''-'' @ l)
                   else None),
            id_prefix = Some pref\<rparr>"
  unfolding extract_id_hierarchy_def match_id_conforming [OF assms]
  by (simp split: option.splits)

theorem extract_id_hierarchy_conforming_witness:
  "extract_id_hierarchy ''HLR-001-A''
     = \<lparr>id_base = ''HLR-001'', id_suffix = Some ''A'', id_parent_ref = Some ''SYS-001'',
        id_prefix = Some ''HLR''\<rparr>
   \<and> extract_id_hierarchy ''LLR-001-A-1''
     = \<lparr>id_base = ''LLR-001'', id_suffix = Some ''A'', id_parent_ref = Some ''HLR-001-A'',
        id_prefix = Some ''LLR''\<rparr>"
  using extract_id_hierarchy_conforming [of "''HLR''" "''001''" "Some ''A''" None]
    extract_id_hierarchy_conforming [of "''LLR''" "''001''" "Some ''A''" "Some ''1''"]
  by (simp add: is_upper_def is_digit_def)

text \<open>
  The claim as stated fails: the implied parent of HLR-001-A is SYS-001, as the
  docstring of \<^verbatim>\<open>extract_id_hierarchy\<close> says, not SYS-001-A.
\<close>

theorem extract_id_hierarchy_counterexample:
  "id_parent_ref (extract_id_hierarchy ''HLR-001-A'') = Some ''SYS-001''
   \<and> id_parent_ref (extract_id_hierarchy ''HLR-001-A'') \<noteq> Some ''SYS-001-A''"
  by (simp add: extract_id_hierarchy_def match_id_def match_suffixes_def is_upper_def
      is_digit_def match_digits_end_def)

section \<open>Properties of candidate generation\<close>

lemma map_filter_member:
  assumes "y \<in> set (List.map_filter f xs)"
  shows "\<exists>x \<in> set xs. f x = Some y"
  using assms by (auto simp: map_filter_def)

lemma py_take_subset: "set (py_take k xs) \<subseteq> set xs"
  by (auto simp: py_take_def dest: in_set_takeD)

lemma py_take_length: "0 \<le> k \<Longrightarrow> int (length (py_take k xs)) \<le> k"
  by (simp add: py_take_def)

lemma py_take_sorted: "sorted_wrt R xs \<Longrightarrow> sorted_wrt R (py_take k xs)"
  by (simp add: py_take_def)

lemma sort_desc_set: "set (sort_desc f xs) = set xs"
  by (simp add: sort_desc_def)

lemma sort_desc_sorted: "sorted_wrt (\<lambda>a b. f b \<le> f a) (sort_desc f xs)"
proof -
  have "sorted (map (\<lambda>x. - f x) (sort_key (\<lambda>x. - f x) xs))"
    by (rule sorted_sort_key)
  then show ?thesis
    by (simp add: sort_desc_def sorted_map)
qed

text \<open>
  What both generators guarantee: the candidates are artifacts of the requested type, in
  descending order of score, and at most \<open>top_k\<close> of them when \<open>top_k\<close> is not
  negative. \<^verbatim>\<open>LinkManager.find_candidates\<close> also skips the source's id and keeps to
  the configured maximum of links per source; \<^verbatim>\<open>HierarchicalLinker._find_candidates\<close>
  leaves the source out only through the type test.
\<close>

lemma h_candidate_Some:
  assumes "h_candidate artifacts config sc source target_type threshold entry = Some c"
  shows "\<exists>t. map_of artifacts (cand_target_id c) = Some t \<and> art_type t = target_type"
  using assms
  by (auto simp: h_candidate_def Let_def split: prod.splits option.splits if_splits)

lemma lm_candidate_Some:
  assumes "lm_candidate artifacts config sc source_id source target_type entry = Some r"
  shows "fst r \<noteq> source_id
       \<and> (\<exists>t. map_of artifacts (fst r) = Some t \<and> art_type t = target_type)"
  using assms
  by (auto simp: lm_candidate_def Let_def split: prod.splits option.splits if_splits)

lemma find_candidates_h_member:
  assumes "c \<in> set (find_candidates_h artifacts ix config sc source target_type threshold top_k)"
  shows "\<exists>t. map_of artifacts (cand_target_id c) = Some t \<and> art_type t = target_type"
proof -
  from assms obtain embedding where
    "c \<in> set (py_take top_k (sort_desc cand_score
        (List.map_filter (h_candidate artifacts config sc source target_type threshold)
           (search_similar ix embedding (top_k * 2) (embedding_threshold config)))))"
    by (auto simp: find_candidates_h_def Let_def split: option.splits)
  then have "c \<in> set (List.map_filter (h_candidate artifacts config sc source target_type threshold)
           (search_similar ix embedding (top_k * 2) (embedding_threshold config)))"
    using py_take_subset sort_desc_set by fastforce
  then obtain entry where
    "h_candidate artifacts config sc source target_type threshold entry = Some c"
    using map_filter_member by fastforce
  then show ?thesis by (rule h_candidate_Some)
qed

lemma find_candidates_h_sorted:
  "sorted_wrt (\<lambda>a b. cand_score b \<le> cand_score a)
     (find_candidates_h artifacts ix config sc source target_type threshold top_k)"
  by (simp add: find_candidates_h_def Let_def py_take_sorted sort_desc_sorted
      split: option.splits)

lemma find_candidates_h_length:
  "0 \<le> top_k \<Longrightarrow>
   int (length (find_candidates_h artifacts ix config sc source target_type threshold top_k))
     \<le> top_k"
  by (simp add: find_candidates_h_def Let_def py_take_length split: option.splits)

lemma find_candidates_lm_cases:
  assumes "find_candidates_lm artifacts ix config sc source_id target_type top_k = Inr rs"
  shows "rs = []
       \<or> (\<exists>source cands.
            rs = py_take (min top_k (opt_get (max_links_per_source (cfg_quality_filters config)) 8))
                   (sort_desc (\<lambda>r. fst (snd r))
                      (List.map_filter
                         (lm_candidate artifacts config sc source_id source target_type) cands)))"
  using assms
  by (auto simp: find_candidates_lm_def Let_def split: option.splits)

lemma find_candidates_lm_member:
  assumes "find_candidates_lm artifacts ix config sc source_id target_type top_k = Inr rs"
    and "r \<in> set rs"
  shows "fst r \<noteq> source_id
       \<and> (\<exists>t. map_of artifacts (fst r) = Some t \<and> art_type t = target_type)"
proof -
  from find_candidates_lm_cases [OF assms(1)] assms(2) obtain source cands k where
    "r \<in> set (py_take k (sort_desc (\<lambda>r. fst (snd r))
        (List.map_filter (lm_candidate artifacts config sc source_id source target_type) cands)))"
    by auto
  then have "r \<in> set (List.map_filter
                        (lm_candidate artifacts config sc source_id source target_type) cands)"
    using py_take_subset sort_desc_set by fastforce
  then obtain entry where
    "lm_candidate artifacts config sc source_id source target_type entry = Some r"
    using map_filter_member by fastforce
  then show ?thesis by (rule lm_candidate_Some)
qed

lemma find_candidates_lm_sorted:
  assumes "find_candidates_lm artifacts ix config sc source_id target_type top_k = Inr rs"
  shows "sorted_wrt (\<lambda>a b. fst (snd b) \<le> fst (snd a)) rs"
  using find_candidates_lm_cases [OF assms]
  by (auto simp: py_take_sorted sort_desc_sorted)

lemma find_candidates_lm_length:
  assumes "find_candidates_lm artifacts ix config sc source_id target_type top_k = Inr rs"
    and "0 \<le> top_k"
    and "0 \<le> opt_get (max_links_per_source (cfg_quality_filters config)) 8"
  shows "int (length rs) \<le> min top_k (opt_get (max_links_per_source (cfg_quality_filters config)) 8)"
proof -
  let ?k = "min top_k (opt_get (max_links_per_source (cfg_quality_filters config)) 8)"
  have k: "0 \<le> ?k"
    using assms(2,3) by simp
  from find_candidates_lm_cases [OF assms(1)] show ?thesis
  proof
    assume "rs = []"
    with k show ?thesis by simp
  next
    assume "\<exists>source cands.
              rs = py_take ?k
                     (sort_desc (\<lambda>r. fst (snd r))
                        (List.map_filter
                           (lm_candidate artifacts config sc source_id source target_type) cands))"
    then obtain xs where "rs = py_take ?k xs" by blast
    with py_take_length [OF k, of xs] show ?thesis by simp
  qed
qed

lemma find_candidates_h_not_source:
  assumes "c \<in> set (find_candidates_h artifacts ix config sc source target_type threshold top_k)"
    and "\<forall>s. map_of artifacts (art_id source) = Some s \<longrightarrow> art_type s \<noteq> target_type"
  shows "cand_target_id c \<noteq> art_id source"
  using find_candidates_h_member [OF assms(1)] assms(2) by auto

lemma id_boost_examples:
  "compute_id_relationship_boost ''SYS-001-A'' ''HLR-001-A'' = 0.2"
  "compute_id_relationship_boost ''HLR-001-A'' ''HLR-001-A'' = 0.2"
  by (simp_all add: compute_id_relationship_boost_def extract_id_hierarchy_def match_id_def
      match_suffixes_def is_upper_def is_digit_def match_digits_end_def Let_def)

lemma example_lookup:
  "map_of example_artifacts ''HLR-001-A'' = Some (mk_artifact ''HLR-001-A'' ''HLR'')"
  "map_of example_artifacts ''SYS-001-A''
     = Some (mk_artifact ''SYS-001-A'' ''SYSTEM_REQ_DECOMPOSED'')"
  by (simp_all add: example_artifacts_def)

text \<open>
  On the chain of the specification both generators return the one high-level
  requirement and leave out the source, which the index returns as its own nearest
  neighbour.
\<close>

lemma find_candidates_h_example:
  "map cand_target_id
     (find_candidates_h example_artifacts
        (example_indexer [(''SYS-001-A'', 1.0), (''HLR-001-A'', 0.5)])
        example_config example_scorers (mk_artifact ''SYS-001-A'' ''SYSTEM_REQ_DECOMPOSED'')
        ''HLR'' 0.196 20)
   = [''HLR-001-A'']"
  by (simp add: find_candidates_h_def example_indexer_def example_config_def
      example_scorers_def map_filter_def h_candidate_def example_lookup mk_artifact_def
      id_boost_examples compute_combined_score_def default_weights_def
      passes_quality_filters_h_def default_quality_filters_def opt_get_def py_take_def
      sort_desc_def Let_def)

lemma find_candidates_lm_example:
  "map_sum id (map fst)
     (find_candidates_lm example_artifacts
        (example_indexer [(''SYS-001-A'', 1.0), (''HLR-001-A'', 0.5)])
        example_config example_scorers ''SYS-001-A'' ''HLR'' 20)
   = Inr [''HLR-001-A'']"
  by code_simp

text \<open>
  On the crowded layer \<^verbatim>\<open>LinkManager.find_candidates\<close> keeps to the configured
  maximum of 15 links per source.
\<close>

lemma find_candidates_lm_crowded:
  "map_sum id (\<lambda>rs. int (length rs))
     (find_candidates_lm crowded_artifacts (example_indexer crowded_neighbours)
        example_config example_scorers ''SYS-001-A'' ''HLR'' 20)
   = Inr 15"
  by code_simp

text \<open>
  Claim C6, at the input where \<^verbatim>\<open>HierarchicalLinker._find_candidates\<close> breaks it.
  With the configuration of config.py, where the maximum of links per source is 15, and
  the default \<open>top_k\<close> of 20, the source SYS-001-A has sixteen neighbours of type HLR
  that pass the quality gate and the threshold. The candidate list holds all sixteen:
  the function truncates to \<open>top_k\<close> only and never reads the configured maximum, which
  is the stricter limit here.
\<close>

theorem find_candidates_h_exceeds_max_links:
  "int (length
     (find_candidates_h crowded_artifacts (example_indexer crowded_neighbours)
        example_config example_scorers (mk_artifact ''SYS-001-A'' ''SYSTEM_REQ_DECOMPOSED'')
        ''HLR'' 0.196 20)) = 16
   \<and> max_links_per_source (cfg_quality_filters example_config) = Some 15"
  by code_simp

end
